theory Spec2Isabelle
  imports Main "HOL-Library.Sublist"
begin

section \<open>The runtime shared by the two stores\<close>

text \<open>
  The two providers (the session store of \<^verbatim>\<open>AuthContext\<close> and the event collection store
  of \<^verbatim>\<open>EventsContext.tsx\<close>) each hold one reducer state and talk to one collaborator
  (\<^verbatim>\<open>authAPI\<close>, \<^verbatim>\<open>eventsAPI\<close>), whose code is not part of the repository's state
  logic. A collaborator call either resolves with a value or rejects with an error that
  carries a message (\<^verbatim>\<open>(error as Error).message\<close>): its outcome is a value of
  \<open>Error + 'a\<close>, \<open>Inl\<close> being the rejection. An asynchronous operation of a provider
  likewise returns \<open>Error + 'a\<close>: \<open>Inl e\<close> is the promise rejected with \<open>e\<close>
  (\<^verbatim>\<open>throw error\<close>).

  What an operation does besides returning is written as explicit state passing over a
  \<open>runtime\<close>: the reducer state that \<^verbatim>\<open>useReducer\<close> holds (\<open>store\<close>), and the lines
  written with \<^verbatim>\<open>console.error\<close> (\<open>console\<close>). \<^verbatim>\<open>dispatch(action)\<close> replaces the
  store by the reducer's result. An operation is modelled on its own: no dispatch of
  another operation falls between its own dispatches.
\<close>

datatype Error = Error (message: string)

record 's runtime =
  store :: 's
  console :: "(string \<times> Error) list"

definition console_error :: "string \<Rightarrow> Error \<Rightarrow> 's runtime \<Rightarrow> 's runtime" where
  "console_error label e w = w\<lparr>console := console w @ [(label, e)]\<rparr>"


section \<open>The session store\<close>

text \<open>
  \<^verbatim>\<open>User\<close>, \<^verbatim>\<open>LoginCredentials\<close>, \<^verbatim>\<open>RegisterCredentials\<close> and
  \<^verbatim>\<open>ForgotPasswordData\<close> are declared in \<^verbatim>\<open>../types/auth\<close>; the store never looks
  inside them, so they are the type parameters \<open>'u\<close>, \<open>'lc\<close>, \<open>'rc\<close> and \<open>'fp\<close>.
  \<^verbatim>\<open>null\<close> is \<open>None\<close>. The fields \<^verbatim>\<open>isLoading\<close> and \<^verbatim>\<open>error\<close>, the actions
  \<^verbatim>\<open>CLEAR_ERROR\<close> and \<^verbatim>\<open>SET_LOADING\<close>, and \<^verbatim>\<open>initialState\<close> and
  \<^verbatim>\<open>clearError\<close> exist in both stores: the session store's carry the prefix
  \<open>auth_\<close> (\<open>AUTH_\<close>) here.
\<close>

record 'u AuthState =
  user :: "'u option"
  isAuthenticated :: bool
  auth_isLoading :: bool
  auth_error :: "string option"

datatype 'u AuthAction =
    LOGIN_START
  | LOGIN_SUCCESS 'u
  | LOGIN_FAILURE string
  | REGISTER_START
  | REGISTER_SUCCESS 'u
  | REGISTER_FAILURE string
  | LOGOUT
  | AUTH_CLEAR_ERROR
  | AUTH_SET_LOADING bool

definition auth_initialState :: "'u AuthState" where
  "auth_initialState =
     \<lparr>user = None, isAuthenticated = False, auth_isLoading = False, auth_error = None\<rparr>"

text \<open>
  The \<^verbatim>\<open>switch\<close> of \<^verbatim>\<open>authReducer\<close>, one equation for each action type. Its
  \<^verbatim>\<open>default\<close> branch returns the state as it is; no value of \<open>AuthAction\<close> reaches it.
\<close>

fun authReducer :: "'u AuthState \<Rightarrow> 'u AuthAction \<Rightarrow> 'u AuthState" where
  "authReducer state LOGIN_START =
     state\<lparr>auth_isLoading := True, auth_error := None\<rparr>"
| "authReducer state REGISTER_START =
     state\<lparr>auth_isLoading := True, auth_error := None\<rparr>"
| "authReducer state (LOGIN_SUCCESS payload) =
     state\<lparr>user := Some payload, isAuthenticated := True,
           auth_isLoading := False, auth_error := None\<rparr>"
| "authReducer state (REGISTER_SUCCESS payload) =
     state\<lparr>user := Some payload, isAuthenticated := True,
           auth_isLoading := False, auth_error := None\<rparr>"
| "authReducer state (LOGIN_FAILURE payload) =
     state\<lparr>user := None, isAuthenticated := False,
           auth_isLoading := False, auth_error := Some payload\<rparr>"
| "authReducer state (REGISTER_FAILURE payload) =
     state\<lparr>user := None, isAuthenticated := False,
           auth_isLoading := False, auth_error := Some payload\<rparr>"
| "authReducer state LOGOUT =
     state\<lparr>user := None, isAuthenticated := False, auth_error := None\<rparr>"
| "authReducer state AUTH_CLEAR_ERROR = state\<lparr>auth_error := None\<rparr>"
| "authReducer state (AUTH_SET_LOADING payload) = state\<lparr>auth_isLoading := payload\<rparr>"

text \<open>The collaborator \<^verbatim>\<open>authAPI\<close> of \<^verbatim>\<open>../services/api\<close>, taken as a parameter.\<close>

record ('u, 'lc, 'rc, 'fp) AuthAPI =
  authAPI_getCurrentUser :: "unit \<Rightarrow> Error + 'u option"
  authAPI_login :: "'lc \<Rightarrow> Error + 'u"
  authAPI_register :: "'rc \<Rightarrow> Error + 'u"
  authAPI_logout :: "unit \<Rightarrow> Error + unit"
  authAPI_forgotPassword :: "'fp \<Rightarrow> Error + unit"

definition auth_dispatch :: "'u AuthAction \<Rightarrow> 'u AuthState runtime \<Rightarrow> 'u AuthState runtime" where
  "auth_dispatch action w = w\<lparr>store := authReducer (store w) action\<rparr>"

text \<open>
  \<^verbatim>\<open>checkAuth\<close>, the effect run once at mount: \<^verbatim>\<open>if (user)\<close> dispatches only for a
  user that is present, the \<^verbatim>\<open>catch\<close> logs and swallows, the \<^verbatim>\<open>finally\<close> resets the
  loading flag on both paths.
\<close>

definition checkAuth ::
  "('u, 'lc, 'rc, 'fp) AuthAPI \<Rightarrow> 'u AuthState runtime \<Rightarrow> 'u AuthState runtime \<times> (Error + unit)"
where
  "checkAuth api w0 =
     (let w1 = auth_dispatch (AUTH_SET_LOADING True) w0;
          w2 = (case authAPI_getCurrentUser api () of
                  Inr None \<Rightarrow> w1
                | Inr (Some u) \<Rightarrow> auth_dispatch (LOGIN_SUCCESS u) w1
                | Inl e \<Rightarrow> console_error ''Auth check failed:'' e w1)
      in (auth_dispatch (AUTH_SET_LOADING False) w2, Inr ()))"

definition login ::
  "('u, 'lc, 'rc, 'fp) AuthAPI \<Rightarrow> 'lc \<Rightarrow> 'u AuthState runtime
     \<Rightarrow> 'u AuthState runtime \<times> (Error + unit)"
where
  "login api credentials w0 =
     (let w1 = auth_dispatch LOGIN_START w0
      in case authAPI_login api credentials of
           Inr u \<Rightarrow> (auth_dispatch (LOGIN_SUCCESS u) w1, Inr ())
         | Inl e \<Rightarrow> (auth_dispatch (LOGIN_FAILURE (message e)) w1, Inl e))"

definition register ::
  "('u, 'lc, 'rc, 'fp) AuthAPI \<Rightarrow> 'rc \<Rightarrow> 'u AuthState runtime
     \<Rightarrow> 'u AuthState runtime \<times> (Error + unit)"
where
  "register api data w0 =
     (let w1 = auth_dispatch REGISTER_START w0
      in case authAPI_register api data of
           Inr u \<Rightarrow> (auth_dispatch (REGISTER_SUCCESS u) w1, Inr ())
         | Inl e \<Rightarrow> (auth_dispatch (REGISTER_FAILURE (message e)) w1, Inl e))"

text \<open>
  \<^verbatim>\<open>logout\<close>: the dispatch of \<^verbatim>\<open>LOGOUT\<close> stands inside the \<^verbatim>\<open>try\<close>, after the
  awaited call; the \<^verbatim>\<open>catch\<close> logs and does not rethrow, and there is no
  \<^verbatim>\<open>finally\<close>.
\<close>

definition logout ::
  "('u, 'lc, 'rc, 'fp) AuthAPI \<Rightarrow> 'u AuthState runtime \<Rightarrow> 'u AuthState runtime \<times> (Error + unit)"
where
  "logout api w0 =
     (case authAPI_logout api () of
        Inr _ \<Rightarrow> (auth_dispatch LOGOUT w0, Inr ())
      | Inl e \<Rightarrow> (console_error ''Logout failed:'' e w0, Inr ()))"

text \<open>
  \<^verbatim>\<open>forgotPassword\<close>: the \<^verbatim>\<open>catch\<close> dispatches \<^verbatim>\<open>LOGIN_FAILURE\<close> and rethrows; the
  \<^verbatim>\<open>finally\<close> runs after it on both paths, and the rejection passes through it.
\<close>

definition forgotPassword ::
  "('u, 'lc, 'rc, 'fp) AuthAPI \<Rightarrow> 'fp \<Rightarrow> 'u AuthState runtime
     \<Rightarrow> 'u AuthState runtime \<times> (Error + unit)"
where
  "forgotPassword api data w0 =
     (let w1 = auth_dispatch (AUTH_SET_LOADING True) w0;
          (w2, r) = (case authAPI_forgotPassword api data of
                       Inr _ \<Rightarrow> (w1, Inr ())
                     | Inl e \<Rightarrow> (auth_dispatch (LOGIN_FAILURE (message e)) w1, Inl e))
      in (auth_dispatch (AUTH_SET_LOADING False) w2, r))"

definition auth_clearError :: "'u AuthState runtime \<Rightarrow> 'u AuthState runtime" where
  "auth_clearError w = auth_dispatch AUTH_CLEAR_ERROR w"

text \<open>The session invariant of the specification: the flag says whether a user is there.\<close>

definition auth_invariant :: "'u AuthState \<Rightarrow> bool" where
  "auth_invariant s = (isAuthenticated s = (user s \<noteq> None))"


section \<open>The event collection store\<close>

text \<open>
  \<^verbatim>\<open>Event\<close>, \<^verbatim>\<open>CreateEventData\<close> and \<^verbatim>\<open>EventFilters\<close> are declared in
  \<^verbatim>\<open>../types/events\<close>. The store reads one field of an event, its \<^verbatim>\<open>id\<close>, which it
  compares with \<^verbatim>\<open>===\<close> to the string payload of \<^verbatim>\<open>DELETE_EVENT_SUCCESS\<close>: an event
  is its id (\<open>event_id\<close>, as \<open>id\<close> is the identity function of HOL) and the rest of its
  fields, of a type \<open>'d\<close> that is a parameter. Filters are the parameter \<open>'f\<close>,
  \<^verbatim>\<open>CreateEventData\<close> is \<open>'c\<close> and \<^verbatim>\<open>Partial<CreateEventData>\<close> is \<open>'p\<close>.
\<close>

record 'd Event =
  event_id :: string
  event_rest :: 'd

record ('d, 'f) EventsState =
  events :: "'d Event list"
  myEvents :: "'d Event list"
  currentEvent :: "'d Event option"
  isLoading :: bool
  error :: "string option"
  filters :: 'f

datatype ('d, 'f) EventsAction =
    FETCH_EVENTS_START
  | FETCH_EVENTS_SUCCESS "'d Event list"
  | FETCH_EVENTS_FAILURE string
  | FETCH_MY_EVENTS_SUCCESS "'d Event list"
  | SET_CURRENT_EVENT "'d Event option"
  | CREATE_EVENT_SUCCESS "'d Event"
  | UPDATE_EVENT_SUCCESS "'d Event"
  | DELETE_EVENT_SUCCESS string
  | SET_FILTERS 'f
  | CLEAR_ERROR
  | SET_LOADING bool

text \<open>The initial filters are the empty object \<^verbatim>\<open>{}\<close> of the filter type, a parameter here.\<close>

definition initialState :: "'f \<Rightarrow> ('d, 'f) EventsState" where
  "initialState no_filters =
     \<lparr>events = [], myEvents = [], currentEvent = None, isLoading = False, error = None,
      filters = no_filters\<rparr>"

text \<open>
  \<^verbatim>\<open>state.currentEvent?.id === x\<close> is false when \<^verbatim>\<open>currentEvent\<close> is \<^verbatim>\<open>null\<close>: the
  optional chain gives \<^verbatim>\<open>undefined\<close>, which is not identical to a string.
\<close>

definition currentEvent_has_id :: "('d, 'f) EventsState \<Rightarrow> string \<Rightarrow> bool" where
  "currentEvent_has_id state x =
     (case currentEvent state of None \<Rightarrow> False | Some c \<Rightarrow> event_id c = x)"

fun eventsReducer :: "('d, 'f) EventsState \<Rightarrow> ('d, 'f) EventsAction \<Rightarrow> ('d, 'f) EventsState" where
  "eventsReducer state FETCH_EVENTS_START = state\<lparr>isLoading := True, error := None\<rparr>"
| "eventsReducer state (FETCH_EVENTS_SUCCESS payload) =
     state\<lparr>events := payload, isLoading := False, error := None\<rparr>"
| "eventsReducer state (FETCH_EVENTS_FAILURE payload) =
     state\<lparr>isLoading := False, error := Some payload\<rparr>"
| "eventsReducer state (FETCH_MY_EVENTS_SUCCESS payload) = state\<lparr>myEvents := payload\<rparr>"
| "eventsReducer state (SET_CURRENT_EVENT payload) = state\<lparr>currentEvent := payload\<rparr>"
| "eventsReducer state (CREATE_EVENT_SUCCESS payload) =
     state\<lparr>events := events state @ [payload], myEvents := myEvents state @ [payload]\<rparr>"
| "eventsReducer state (UPDATE_EVENT_SUCCESS payload) =
     state\<lparr>events :=
             map (\<lambda>event. if event_id event = event_id payload then payload else event)
               (events state),
           myEvents :=
             map (\<lambda>event. if event_id event = event_id payload then payload else event)
               (myEvents state),
           currentEvent :=
             (if currentEvent_has_id state (event_id payload) then Some payload
              else currentEvent state)\<rparr>"
| "eventsReducer state (DELETE_EVENT_SUCCESS payload) =
     state\<lparr>events := filter (\<lambda>event. event_id event \<noteq> payload) (events state),
           myEvents := filter (\<lambda>event. event_id event \<noteq> payload) (myEvents state),
           currentEvent :=
             (if currentEvent_has_id state payload then None else currentEvent state)\<rparr>"
| "eventsReducer state (SET_FILTERS payload) = state\<lparr>filters := payload\<rparr>"
| "eventsReducer state CLEAR_ERROR = state\<lparr>error := None\<rparr>"
| "eventsReducer state (SET_LOADING payload) = state\<lparr>isLoading := payload\<rparr>"

text \<open>The collaborator \<^verbatim>\<open>eventsAPI\<close> of \<^verbatim>\<open>../services/api\<close>, taken as a parameter.\<close>

record ('d, 'f, 'c, 'p) EventsAPI =
  eventsAPI_getEvents :: "'f option \<Rightarrow> Error + 'd Event list"
  eventsAPI_getMyEvents :: "unit \<Rightarrow> Error + 'd Event list"
  eventsAPI_getEvent :: "string \<Rightarrow> Error + 'd Event option"
  eventsAPI_createEvent :: "'c \<Rightarrow> Error + 'd Event"
  eventsAPI_updateEvent :: "string \<Rightarrow> 'p \<Rightarrow> Error + 'd Event"
  eventsAPI_deleteEvent :: "string \<Rightarrow> Error + unit"
  eventsAPI_joinEvent :: "string \<Rightarrow> Error + unit"
  eventsAPI_leaveEvent :: "string \<Rightarrow> Error + unit"

definition dispatch ::
  "('d, 'f) EventsAction \<Rightarrow> ('d, 'f) EventsState runtime \<Rightarrow> ('d, 'f) EventsState runtime"
where
  "dispatch action w = w\<lparr>store := eventsReducer (store w) action\<rparr>"

definition fetchEvents ::
  "('d, 'f, 'c, 'p) EventsAPI \<Rightarrow> 'f option \<Rightarrow> ('d, 'f) EventsState runtime
     \<Rightarrow> ('d, 'f) EventsState runtime \<times> (Error + unit)"
where
  "fetchEvents api fs w0 =
     (let w1 = dispatch FETCH_EVENTS_START w0
      in case eventsAPI_getEvents api fs of
           Inr es \<Rightarrow> (dispatch (FETCH_EVENTS_SUCCESS es) w1, Inr ())
         | Inl e \<Rightarrow> (dispatch (FETCH_EVENTS_FAILURE (message e)) w1, Inr ()))"

definition fetchMyEvents ::
  "('d, 'f, 'c, 'p) EventsAPI \<Rightarrow> ('d, 'f) EventsState runtime
     \<Rightarrow> ('d, 'f) EventsState runtime \<times> (Error + unit)"
where
  "fetchMyEvents api w0 =
     (case eventsAPI_getMyEvents api () of
        Inr es \<Rightarrow> (dispatch (FETCH_MY_EVENTS_SUCCESS es) w0, Inr ())
      | Inl e \<Rightarrow> (console_error ''Failed to fetch my events:'' e w0, Inr ()))"

definition fetchEvent ::
  "('d, 'f, 'c, 'p) EventsAPI \<Rightarrow> string \<Rightarrow> ('d, 'f) EventsState runtime
     \<Rightarrow> ('d, 'f) EventsState runtime \<times> (Error + unit)"
where
  "fetchEvent api i w0 =
     (let w1 = dispatch (SET_LOADING True) w0;
          w2 = (case eventsAPI_getEvent api i of
                  Inr event \<Rightarrow> dispatch (SET_CURRENT_EVENT event) w1
                | Inl e \<Rightarrow> dispatch (FETCH_EVENTS_FAILURE (message e)) w1)
      in (dispatch (SET_LOADING False) w2, Inr ()))"

definition createEvent ::
  "('d, 'f, 'c, 'p) EventsAPI \<Rightarrow> 'c \<Rightarrow> ('d, 'f) EventsState runtime
     \<Rightarrow> ('d, 'f) EventsState runtime \<times> (Error + 'd Event)"
where
  "createEvent api data w0 =
     (let w1 = dispatch (SET_LOADING True) w0;
          (w2, r) = (case eventsAPI_createEvent api data of
                       Inr event \<Rightarrow> (dispatch (CREATE_EVENT_SUCCESS event) w1, Inr event)
                     | Inl e \<Rightarrow> (dispatch (FETCH_EVENTS_FAILURE (message e)) w1, Inl e))
      in (dispatch (SET_LOADING False) w2, r))"

definition updateEvent ::
  "('d, 'f, 'c, 'p) EventsAPI \<Rightarrow> string \<Rightarrow> 'p \<Rightarrow> ('d, 'f) EventsState runtime
     \<Rightarrow> ('d, 'f) EventsState runtime \<times> (Error + unit)"
where
  "updateEvent api i data w0 =
     (let w1 = dispatch (SET_LOADING True) w0;
          (w2, r) = (case eventsAPI_updateEvent api i data of
                       Inr event \<Rightarrow> (dispatch (UPDATE_EVENT_SUCCESS event) w1, Inr ())
                     | Inl e \<Rightarrow> (dispatch (FETCH_EVENTS_FAILURE (message e)) w1, Inl e))
      in (dispatch (SET_LOADING False) w2, r))"

definition deleteEvent ::
  "('d, 'f, 'c, 'p) EventsAPI \<Rightarrow> string \<Rightarrow> ('d, 'f) EventsState runtime
     \<Rightarrow> ('d, 'f) EventsState runtime \<times> (Error + unit)"
where
  "deleteEvent api i w0 =
     (case eventsAPI_deleteEvent api i of
        Inr _ \<Rightarrow> (dispatch (DELETE_EVENT_SUCCESS i) w0, Inr ())
      | Inl e \<Rightarrow> (dispatch (FETCH_EVENTS_FAILURE (message e)) w0, Inl e))"

text \<open>
  \<^verbatim>\<open>joinEvent\<close> and \<^verbatim>\<open>leaveEvent\<close>: the mutation, then \<^verbatim>\<open>getEvent\<close> in the same
  \<^verbatim>\<open>try\<close>; \<^verbatim>\<open>if (updatedEvent)\<close> dispatches only for an event that is present. A
  rejection of either call reaches the one \<^verbatim>\<open>catch\<close>.
\<close>

definition joinEvent ::
  "('d, 'f, 'c, 'p) EventsAPI \<Rightarrow> string \<Rightarrow> ('d, 'f) EventsState runtime
     \<Rightarrow> ('d, 'f) EventsState runtime \<times> (Error + unit)"
where
  "joinEvent api eventId w0 =
     (case eventsAPI_joinEvent api eventId of
        Inl e \<Rightarrow> (dispatch (FETCH_EVENTS_FAILURE (message e)) w0, Inl e)
      | Inr _ \<Rightarrow>
          (case eventsAPI_getEvent api eventId of
             Inl e \<Rightarrow> (dispatch (FETCH_EVENTS_FAILURE (message e)) w0, Inl e)
           | Inr None \<Rightarrow> (w0, Inr ())
           | Inr (Some updatedEvent) \<Rightarrow>
               (dispatch (SET_CURRENT_EVENT (Some updatedEvent)) w0, Inr ())))"

definition leaveEvent ::
  "('d, 'f, 'c, 'p) EventsAPI \<Rightarrow> string \<Rightarrow> ('d, 'f) EventsState runtime
     \<Rightarrow> ('d, 'f) EventsState runtime \<times> (Error + unit)"
where
  "leaveEvent api eventId w0 =
     (case eventsAPI_leaveEvent api eventId of
        Inl e \<Rightarrow> (dispatch (FETCH_EVENTS_FAILURE (message e)) w0, Inl e)
      | Inr _ \<Rightarrow>
          (case eventsAPI_getEvent api eventId of
             Inl e \<Rightarrow> (dispatch (FETCH_EVENTS_FAILURE (message e)) w0, Inl e)
           | Inr None \<Rightarrow> (w0, Inr ())
           | Inr (Some updatedEvent) \<Rightarrow>
               (dispatch (SET_CURRENT_EVENT (Some updatedEvent)) w0, Inr ())))"

definition setFilters :: "'f \<Rightarrow> ('d, 'f) EventsState runtime \<Rightarrow> ('d, 'f) EventsState runtime" where
  "setFilters fs w = dispatch (SET_FILTERS fs) w"

definition clearError :: "('d, 'f) EventsState runtime \<Rightarrow> ('d, 'f) EventsState runtime" where
  "clearError w = dispatch CLEAR_ERROR w"

section \<open>An auxiliary fact on lists\<close>

lemma count_list_filter_keep:
  "count_list (filter P xs) x = (if P x then count_list xs x else 0)"
  by (induction xs) auto


section \<open>Properties of the session store\<close>

text \<open>
  Against the first reading of C1: a collaborator whose \<^verbatim>\<open>logout\<close> rejects leaves a
  signed-in session signed in. The \<^verbatim>\<open>catch\<close> of \<^verbatim>\<open>logout\<close> only logs, and the
  dispatch of \<^verbatim>\<open>LOGOUT\<close> in the \<^verbatim>\<open>try\<close> is never reached.
\<close>

theorem logout_failure_keeps_user_counterexample:
  "authAPI_logout
      \<lparr>authAPI_getCurrentUser = (\<lambda>_. Inr (Some ''ann'')),
       authAPI_login = (\<lambda>_::unit. Inr ''ann''),
       authAPI_register = (\<lambda>_::unit. Inr ''ann''),
       authAPI_logout = (\<lambda>_. Inl (Error ''network down'')),
       authAPI_forgotPassword = (\<lambda>_::unit. Inr ())\<rparr> () = Inl (Error ''network down'') \<and>
   \<not> (user (store (fst (logout
      \<lparr>authAPI_getCurrentUser = (\<lambda>_. Inr (Some ''ann'')),
       authAPI_login = (\<lambda>_::unit. Inr ''ann''),
       authAPI_register = (\<lambda>_::unit. Inr ''ann''),
       authAPI_logout = (\<lambda>_. Inl (Error ''network down'')),
       authAPI_forgotPassword = (\<lambda>_::unit. Inr ())\<rparr>
      \<lparr>store = \<lparr>user = Some ''ann'', isAuthenticated = True,
                  auth_isLoading = False, auth_error = None\<rparr>,
        console = []\<rparr>))) = None \<and>
      \<not> isAuthenticated (store (fst (logout
      \<lparr>authAPI_getCurrentUser = (\<lambda>_. Inr (Some ''ann'')),
       authAPI_login = (\<lambda>_::unit. Inr ''ann''),
       authAPI_register = (\<lambda>_::unit. Inr ''ann''),
       authAPI_logout = (\<lambda>_. Inl (Error ''network down'')),
       authAPI_forgotPassword = (\<lambda>_::unit. Inr ())\<rparr>
      \<lparr>store = \<lparr>user = Some ''ann'', isAuthenticated = True,
                  auth_isLoading = False, auth_error = None\<rparr>,
        console = []\<rparr>))) \<and>
      auth_error (store (fst (logout
      \<lparr>authAPI_getCurrentUser = (\<lambda>_. Inr (Some ''ann'')),
       authAPI_login = (\<lambda>_::unit. Inr ''ann''),
       authAPI_register = (\<lambda>_::unit. Inr ''ann''),
       authAPI_logout = (\<lambda>_. Inl (Error ''network down'')),
       authAPI_forgotPassword = (\<lambda>_::unit. Inr ())\<rparr>
      \<lparr>store = \<lparr>user = Some ''ann'', isAuthenticated = True,
                  auth_isLoading = False, auth_error = None\<rparr>,
        console = []\<rparr>))) = None)"
  by (simp add: logout_def console_error_def)

text \<open>
  C1, as the code has it: \<^verbatim>\<open>logout()\<close> never rejects. When the collaborator's logout
  resolves, \<^verbatim>\<open>LOGOUT\<close> is dispatched: afterwards the user is absent,
  \<^verbatim>\<open>isAuthenticated\<close> is false and the error is absent, the loading flag is as it was
  and nothing is logged. When the collaborator's logout rejects with \<open>e\<close>, no action is
  dispatched: the session state is as it was, and the one effect is the console line
  \<^verbatim>\<open>Logout failed:\<close> with \<open>e\<close>.
\<close>

theorem logout_best_effort:
  "snd (logout api w) = Inr () \<and>
   (authAPI_logout api () = Inr () \<longrightarrow>
      store (fst (logout api w)) = authReducer (store w) LOGOUT \<and>
      user (store (fst (logout api w))) = None \<and>
      \<not> isAuthenticated (store (fst (logout api w))) \<and>
      auth_error (store (fst (logout api w))) = None \<and>
      auth_isLoading (store (fst (logout api w))) = auth_isLoading (store w) \<and>
      console (fst (logout api w)) = console w) \<and>
   (authAPI_logout api () = Inl e \<longrightarrow>
      store (fst (logout api w)) = store w \<and>
      console (fst (logout api w)) = console w @ [(''Logout failed:'', e)])"
  by (simp add: logout_def auth_dispatch_def console_error_def split: sum.splits)

theorem logout_best_effort_witness:
  "authAPI_logout
      \<lparr>authAPI_getCurrentUser = (\<lambda>_. Inr (Some ''ann'')),
       authAPI_login = (\<lambda>_::unit. Inr ''ann''),
       authAPI_register = (\<lambda>_::unit. Inr ''ann''),
       authAPI_logout = (\<lambda>_. Inr ()),
       authAPI_forgotPassword = (\<lambda>_::unit. Inr ())\<rparr> () = Inr () \<and>
   store (fst (logout
      \<lparr>authAPI_getCurrentUser = (\<lambda>_. Inr (Some ''ann'')),
       authAPI_login = (\<lambda>_::unit. Inr ''ann''),
       authAPI_register = (\<lambda>_::unit. Inr ''ann''),
       authAPI_logout = (\<lambda>_. Inr ()),
       authAPI_forgotPassword = (\<lambda>_::unit. Inr ())\<rparr>
      \<lparr>store = \<lparr>user = Some ''ann'', isAuthenticated = True,
                  auth_isLoading = False, auth_error = Some ''stale''\<rparr>,
        console = []\<rparr>)) =
     \<lparr>user = None, isAuthenticated = False, auth_isLoading = False, auth_error = None\<rparr> \<and>
   authAPI_logout
      \<lparr>authAPI_getCurrentUser = (\<lambda>_. Inr (Some ''ann'')),
       authAPI_login = (\<lambda>_::unit. Inr ''ann''),
       authAPI_register = (\<lambda>_::unit. Inr ''ann''),
       authAPI_logout = (\<lambda>_. Inl (Error ''network down'')),
       authAPI_forgotPassword = (\<lambda>_::unit. Inr ())\<rparr> () = Inl (Error ''network down'') \<and>
   store (fst (logout
      \<lparr>authAPI_getCurrentUser = (\<lambda>_. Inr (Some ''ann'')),
       authAPI_login = (\<lambda>_::unit. Inr ''ann''),
       authAPI_register = (\<lambda>_::unit. Inr ''ann''),
       authAPI_logout = (\<lambda>_. Inl (Error ''network down'')),
       authAPI_forgotPassword = (\<lambda>_::unit. Inr ())\<rparr>
      \<lparr>store = \<lparr>user = Some ''ann'', isAuthenticated = True,
                  auth_isLoading = False, auth_error = Some ''stale''\<rparr>,
        console = []\<rparr>)) =
     \<lparr>user = Some ''ann'', isAuthenticated = True,
      auth_isLoading = False, auth_error = Some ''stale''\<rparr> \<and>
   console (fst (logout
      \<lparr>authAPI_getCurrentUser = (\<lambda>_. Inr (Some ''ann'')),
       authAPI_login = (\<lambda>_::unit. Inr ''ann''),
       authAPI_register = (\<lambda>_::unit. Inr ''ann''),
       authAPI_logout = (\<lambda>_. Inl (Error ''network down'')),
       authAPI_forgotPassword = (\<lambda>_::unit. Inr ())\<rparr>
      \<lparr>store = \<lparr>user = Some ''ann'', isAuthenticated = True,
                  auth_isLoading = False, auth_error = Some ''stale''\<rparr>,
        console = []\<rparr>)) = [(''Logout failed:'', Error ''network down'')]"
  using
    logout_best_effort [of
      "\<lparr>authAPI_getCurrentUser = (\<lambda>_. Inr (Some ''ann'')),
       authAPI_login = (\<lambda>_::unit. Inr ''ann''),
       authAPI_register = (\<lambda>_::unit. Inr ''ann''),
       authAPI_logout = (\<lambda>_. Inr ()),
       authAPI_forgotPassword = (\<lambda>_::unit. Inr ())\<rparr>"
      "\<lparr>store = \<lparr>user = Some ''ann'', isAuthenticated = True,
                  auth_isLoading = False, auth_error = Some ''stale''\<rparr>,
        console = []\<rparr>"
      "Error ''network down''"]
    logout_best_effort [of
      "\<lparr>authAPI_getCurrentUser = (\<lambda>_. Inr (Some ''ann'')),
       authAPI_login = (\<lambda>_::unit. Inr ''ann''),
       authAPI_register = (\<lambda>_::unit. Inr ''ann''),
       authAPI_logout = (\<lambda>_. Inl (Error ''network down'')),
       authAPI_forgotPassword = (\<lambda>_::unit. Inr ())\<rparr>"
      "\<lparr>store = \<lparr>user = Some ''ann'', isAuthenticated = True,
                  auth_isLoading = False, auth_error = Some ''stale''\<rparr>,
        console = []\<rparr>"
      "Error ''network down''"]
  by simp

text \<open>
  C2: the session invariant \<^verbatim>\<open>isAuthenticated == (user is present)\<close> holds in the
  initial state, and every action of \<^verbatim>\<open>authReducer\<close> takes a state that satisfies it
  to a state that satisfies it.
\<close>

theorem auth_invariant_preserved:
  "auth_invariant auth_initialState \<and>
   (auth_invariant s \<longrightarrow> auth_invariant (authReducer s a))"
proof
  show "auth_invariant auth_initialState"
    by (simp add: auth_invariant_def auth_initialState_def)
next
  show "auth_invariant s \<longrightarrow> auth_invariant (authReducer s a)"
  proof
    assume inv: "auth_invariant s"
    show "auth_invariant (authReducer s a)"
    proof (cases a)
      case (LOGIN_SUCCESS u)
      then show ?thesis by (simp add: auth_invariant_def)
    next
      case (REGISTER_SUCCESS u)
      then show ?thesis by (simp add: auth_invariant_def)
    next
      case (LOGIN_FAILURE m)
      then show ?thesis by (simp add: auth_invariant_def)
    next
      case (REGISTER_FAILURE m)
      then show ?thesis by (simp add: auth_invariant_def)
    next
      case LOGOUT
      then show ?thesis by (simp add: auth_invariant_def)
    qed (use inv in \<open>simp_all add: auth_invariant_def\<close>)
  qed
qed

theorem auth_invariant_preserved_witness:
  "auth_invariant
     \<lparr>user = Some ''ann'', isAuthenticated = True,
      auth_isLoading = True, auth_error = None\<rparr> \<and>
   auth_invariant
     (authReducer
        \<lparr>user = Some ''ann'', isAuthenticated = True,
         auth_isLoading = True, auth_error = None\<rparr>
        (REGISTER_FAILURE ''email taken''))"
  using auth_invariant_preserved [of
      "\<lparr>user = Some ''ann'', isAuthenticated = True,
        auth_isLoading = True, auth_error = None\<rparr>"
      "REGISTER_FAILURE ''email taken''"]
  by (simp add: auth_invariant_def)

text \<open>
  C7: when \<^verbatim>\<open>forgotPassword(data)\<close> is called and the collaborator rejects with an error
  of message \<open>m\<close>, the failure action with \<open>m\<close> is dispatched between the two
  \<^verbatim>\<open>SET_LOADING\<close> dispatches, so the user is absent, \<^verbatim>\<open>isAuthenticated\<close> is false and
  the error is \<open>m\<close> afterwards, and the call rejects with the collaborator's error. On
  either outcome the loading flag is false when the call has completed.
\<close>

theorem forgotPassword_failure:
  "(authAPI_forgotPassword api data = Inl err \<longrightarrow>
      store (fst (forgotPassword api data w)) =
        authReducer
          (authReducer (authReducer (store w) (AUTH_SET_LOADING True))
             (LOGIN_FAILURE (message err)))
          (AUTH_SET_LOADING False) \<and>
      user (store (fst (forgotPassword api data w))) = None \<and>
      \<not> isAuthenticated (store (fst (forgotPassword api data w))) \<and>
      auth_error (store (fst (forgotPassword api data w))) = Some (message err) \<and>
      snd (forgotPassword api data w) = Inl err) \<and>
   \<not> auth_isLoading (store (fst (forgotPassword api data w)))"
  by (simp add: forgotPassword_def auth_dispatch_def Let_def split: sum.splits)

theorem forgotPassword_failure_witness:
  "authAPI_forgotPassword
      \<lparr>authAPI_getCurrentUser = (\<lambda>_. Inr (Some ''ann'')),
       authAPI_login = (\<lambda>_::unit. Inr ''ann''),
       authAPI_register = (\<lambda>_::unit. Inr ''ann''),
       authAPI_logout = (\<lambda>_. Inr ()),
       authAPI_forgotPassword = (\<lambda>_::unit. Inl (Error ''unknown address''))\<rparr> () = Inl (Error ''unknown address'') \<and>
   forgotPassword
      \<lparr>authAPI_getCurrentUser = (\<lambda>_. Inr (Some ''ann'')),
       authAPI_login = (\<lambda>_::unit. Inr ''ann''),
       authAPI_register = (\<lambda>_::unit. Inr ''ann''),
       authAPI_logout = (\<lambda>_. Inr ()),
       authAPI_forgotPassword = (\<lambda>_::unit. Inl (Error ''unknown address''))\<rparr> ()
      \<lparr>store = \<lparr>user = Some ''ann'', isAuthenticated = True,
                  auth_isLoading = False, auth_error = None\<rparr>,
        console = []\<rparr> =
     (\<lparr>store = \<lparr>user = None, isAuthenticated = False,
                 auth_isLoading = False, auth_error = Some ''unknown address''\<rparr>,
       console = []\<rparr>,
      Inl (Error ''unknown address''))"
  using forgotPassword_failure [of
      "\<lparr>authAPI_getCurrentUser = (\<lambda>_. Inr (Some ''ann'')),
       authAPI_login = (\<lambda>_::unit. Inr ''ann''),
       authAPI_register = (\<lambda>_::unit. Inr ''ann''),
       authAPI_logout = (\<lambda>_. Inr ()),
       authAPI_forgotPassword = (\<lambda>_::unit. Inl (Error ''unknown address''))\<rparr>" "()"
      "Error ''unknown address''"
      "\<lparr>store = \<lparr>user = Some ''ann'', isAuthenticated = True,
                  auth_isLoading = False, auth_error = None\<rparr>,
        console = []\<rparr>"]
  by (simp add: forgotPassword_def auth_dispatch_def)

text \<open>
  C8: from any session state and for any user \<open>u\<close>, \<^verbatim>\<open>LOGIN_SUCCESS(u)\<close> followed at
  once by \<^verbatim>\<open>LOGOUT\<close> gives a state with the user absent, \<^verbatim>\<open>isAuthenticated\<close> false
  and the error absent; \<^verbatim>\<open>LOGOUT\<close> leaves the loading flag as \<^verbatim>\<open>LOGIN_SUCCESS\<close> left
  it, which is false.
\<close>

theorem login_success_then_logout:
  "user (authReducer (authReducer s (LOGIN_SUCCESS u)) LOGOUT) = None \<and>
   \<not> isAuthenticated (authReducer (authReducer s (LOGIN_SUCCESS u)) LOGOUT) \<and>
   auth_error (authReducer (authReducer s (LOGIN_SUCCESS u)) LOGOUT) = None \<and>
   auth_isLoading (authReducer (authReducer s (LOGIN_SUCCESS u)) LOGOUT) =
     auth_isLoading (authReducer s (LOGIN_SUCCESS u)) \<and>
   \<not> auth_isLoading (authReducer (authReducer s (LOGIN_SUCCESS u)) LOGOUT)"
  by simp


section \<open>Properties of the event collection store\<close>

text \<open>
  C3: \<^verbatim>\<open>UPDATE_EVENT_SUCCESS(e)\<close> keeps the length of \<^verbatim>\<open>events\<close> and of
  \<^verbatim>\<open>myEvents\<close>; at every position of either list the entry becomes \<open>e\<close> when its id
  is the id of \<open>e\<close> and stays what it was otherwise, so order and the entries of other
  ids are kept. \<^verbatim>\<open>currentEvent\<close> becomes \<open>e\<close> when it is present with the id of \<open>e\<close>,
  and stays what it was otherwise.
\<close>

theorem update_event_success_replaces_by_id:
  "let s' = eventsReducer s (UPDATE_EVENT_SUCCESS e) in
     length (events s') = length (events s) \<and>
     (\<forall>k < length (events s).
        events s' ! k = (if event_id (events s ! k) = event_id e then e else events s ! k)) \<and>
     length (myEvents s') = length (myEvents s) \<and>
     (\<forall>k < length (myEvents s).
        myEvents s' ! k =
          (if event_id (myEvents s ! k) = event_id e then e else myEvents s ! k)) \<and>
     currentEvent s' =
       (case currentEvent s of
          None \<Rightarrow> None
        | Some c \<Rightarrow> if event_id c = event_id e then Some e else Some c)"
  by (simp add: Let_def currentEvent_has_id_def split: option.splits)

theorem update_event_success_replaces_by_id_witness:
  "(2::nat) < length (events
      \<lparr>events = [\<lparr>event_id = ''1'', event_rest = ''old''\<rparr>, \<lparr>event_id = ''2'', event_rest = ''other''\<rparr>, \<lparr>event_id = ''1'', event_rest = ''old''\<rparr>],
       myEvents = [\<lparr>event_id = ''1'', event_rest = ''old''\<rparr>],
       currentEvent = Some \<lparr>event_id = ''1'', event_rest = ''old''\<rparr>,
       isLoading = False, error = None, filters = ()\<rparr>) \<and>
   events (eventsReducer
      \<lparr>events = [\<lparr>event_id = ''1'', event_rest = ''old''\<rparr>, \<lparr>event_id = ''2'', event_rest = ''other''\<rparr>, \<lparr>event_id = ''1'', event_rest = ''old''\<rparr>],
       myEvents = [\<lparr>event_id = ''1'', event_rest = ''old''\<rparr>],
       currentEvent = Some \<lparr>event_id = ''1'', event_rest = ''old''\<rparr>,
       isLoading = False, error = None, filters = ()\<rparr>
      (UPDATE_EVENT_SUCCESS \<lparr>event_id = ''1'', event_rest = ''new''\<rparr>)) =
     [\<lparr>event_id = ''1'', event_rest = ''new''\<rparr>, \<lparr>event_id = ''2'', event_rest = ''other''\<rparr>,
      \<lparr>event_id = ''1'', event_rest = ''new''\<rparr>] \<and>
   myEvents (eventsReducer
      \<lparr>events = [\<lparr>event_id = ''1'', event_rest = ''old''\<rparr>, \<lparr>event_id = ''2'', event_rest = ''other''\<rparr>, \<lparr>event_id = ''1'', event_rest = ''old''\<rparr>],
       myEvents = [\<lparr>event_id = ''1'', event_rest = ''old''\<rparr>],
       currentEvent = Some \<lparr>event_id = ''1'', event_rest = ''old''\<rparr>,
       isLoading = False, error = None, filters = ()\<rparr>
      (UPDATE_EVENT_SUCCESS \<lparr>event_id = ''1'', event_rest = ''new''\<rparr>)) =
     [\<lparr>event_id = ''1'', event_rest = ''new''\<rparr>]"
proof -
  note u = update_event_success_replaces_by_id [of
      "\<lparr>events = [\<lparr>event_id = ''1'', event_rest = ''old''\<rparr>, \<lparr>event_id = ''2'', event_rest = ''other''\<rparr>, \<lparr>event_id = ''1'', event_rest = ''old''\<rparr>],
       myEvents = [\<lparr>event_id = ''1'', event_rest = ''old''\<rparr>],
       currentEvent = Some \<lparr>event_id = ''1'', event_rest = ''old''\<rparr>,
       isLoading = False, error = None, filters = ()\<rparr>"
      "\<lparr>event_id = ''1'', event_rest = ''new''\<rparr>", unfolded Let_def]
  from u have "events (eventsReducer
      \<lparr>events = [\<lparr>event_id = ''1'', event_rest = ''old''\<rparr>, \<lparr>event_id = ''2'', event_rest = ''other''\<rparr>, \<lparr>event_id = ''1'', event_rest = ''old''\<rparr>],
       myEvents = [\<lparr>event_id = ''1'', event_rest = ''old''\<rparr>],
       currentEvent = Some \<lparr>event_id = ''1'', event_rest = ''old''\<rparr>,
       isLoading = False, error = None, filters = ()\<rparr>
      (UPDATE_EVENT_SUCCESS \<lparr>event_id = ''1'', event_rest = ''new''\<rparr>)) ! 2 =
     \<lparr>event_id = ''1'', event_rest = ''new''\<rparr>"
    by simp
  then show ?thesis by simp
qed

text \<open>
  C4: \<^verbatim>\<open>DELETE_EVENT_SUCCESS(id)\<close> leaves of \<^verbatim>\<open>events\<close> and of \<^verbatim>\<open>myEvents\<close> a
  subsequence (what survives is in its old order) that holds no entry of that id and
  holds every entry of another id as often as before. \<^verbatim>\<open>currentEvent\<close> is cleared when
  it was present with that id and is what it was otherwise: it goes from present to
  absent if and only if it was present with that id.
\<close>

theorem delete_event_success_removes_by_id:
  "let s' = eventsReducer s (DELETE_EVENT_SUCCESS i) in
     subseq (events s') (events s) \<and>
     (\<forall>x \<in> set (events s'). event_id x \<noteq> i) \<and>
     (\<forall>x. event_id x \<noteq> i \<longrightarrow> count_list (events s') x = count_list (events s) x) \<and>
     subseq (myEvents s') (myEvents s) \<and>
     (\<forall>x \<in> set (myEvents s'). event_id x \<noteq> i) \<and>
     (\<forall>x. event_id x \<noteq> i \<longrightarrow> count_list (myEvents s') x = count_list (myEvents s) x) \<and>
     currentEvent s' =
       (case currentEvent s of
          None \<Rightarrow> None
        | Some c \<Rightarrow> if event_id c = i then None else Some c) \<and>
     ((currentEvent s \<noteq> None \<and> currentEvent s' = None) =
        (\<exists>c. currentEvent s = Some c \<and> event_id c = i))"
proof -
  define keep where "keep = (\<lambda>event :: 'a Event. event_id event \<noteq> i)"
  have ev: "events (eventsReducer s (DELETE_EVENT_SUCCESS i)) = filter keep (events s)"
    and my: "myEvents (eventsReducer s (DELETE_EVENT_SUCCESS i)) = filter keep (myEvents s)"
    by (simp_all add: keep_def)
  have order: "subseq (filter keep xs) xs" for xs
    by (rule subseq_filter_left)
  have gone: "\<forall>x \<in> set (filter keep xs). event_id x \<noteq> i" for xs
    by (simp add: keep_def)
  have kept: "\<forall>x. event_id x \<noteq> i \<longrightarrow> count_list (filter keep xs) x = count_list xs x" for xs
    by (simp add: keep_def count_list_filter_keep)
  have cur: "currentEvent (eventsReducer s (DELETE_EVENT_SUCCESS i)) =
      (case currentEvent s of
         None \<Rightarrow> None
       | Some c \<Rightarrow> if event_id c = i then None else Some c)"
    by (simp add: currentEvent_has_id_def split: option.splits)
  have cleared: "(currentEvent s \<noteq> None \<and>
        currentEvent (eventsReducer s (DELETE_EVENT_SUCCESS i)) = None) =
      (\<exists>c. currentEvent s = Some c \<and> event_id c = i)"
    unfolding cur by (cases "currentEvent s") auto
  show ?thesis
    unfolding Let_def ev my
    using order gone kept cur cleared by blast
qed

theorem delete_event_success_removes_by_id_witness:
  "event_id \<lparr>event_id = ''2'', event_rest = ''other''\<rparr> \<noteq> ''1'' \<and>
   count_list (events (eventsReducer
      \<lparr>events = [\<lparr>event_id = ''1'', event_rest = ''old''\<rparr>, \<lparr>event_id = ''2'', event_rest = ''other''\<rparr>, \<lparr>event_id = ''1'', event_rest = ''old''\<rparr>],
       myEvents = [\<lparr>event_id = ''1'', event_rest = ''old''\<rparr>],
       currentEvent = Some \<lparr>event_id = ''1'', event_rest = ''old''\<rparr>,
       isLoading = False, error = None, filters = ()\<rparr>
      (DELETE_EVENT_SUCCESS ''1'')))
     \<lparr>event_id = ''2'', event_rest = ''other''\<rparr> = 1 \<and>
   \<lparr>event_id = ''2'', event_rest = ''other''\<rparr> \<in> set (events (eventsReducer
      \<lparr>events = [\<lparr>event_id = ''1'', event_rest = ''old''\<rparr>, \<lparr>event_id = ''2'', event_rest = ''other''\<rparr>, \<lparr>event_id = ''1'', event_rest = ''old''\<rparr>],
       myEvents = [\<lparr>event_id = ''1'', event_rest = ''old''\<rparr>],
       currentEvent = Some \<lparr>event_id = ''1'', event_rest = ''old''\<rparr>,
       isLoading = False, error = None, filters = ()\<rparr>
      (DELETE_EVENT_SUCCESS ''1''))) \<and>
   currentEvent (eventsReducer
      \<lparr>events = [\<lparr>event_id = ''1'', event_rest = ''old''\<rparr>, \<lparr>event_id = ''2'', event_rest = ''other''\<rparr>, \<lparr>event_id = ''1'', event_rest = ''old''\<rparr>],
       myEvents = [\<lparr>event_id = ''1'', event_rest = ''old''\<rparr>],
       currentEvent = Some \<lparr>event_id = ''1'', event_rest = ''old''\<rparr>,
       isLoading = False, error = None, filters = ()\<rparr>
      (DELETE_EVENT_SUCCESS ''1'')) = None"
proof -
  note d = delete_event_success_removes_by_id [of
      "\<lparr>events = [\<lparr>event_id = ''1'', event_rest = ''old''\<rparr>, \<lparr>event_id = ''2'', event_rest = ''other''\<rparr>, \<lparr>event_id = ''1'', event_rest = ''old''\<rparr>],
       myEvents = [\<lparr>event_id = ''1'', event_rest = ''old''\<rparr>],
       currentEvent = Some \<lparr>event_id = ''1'', event_rest = ''old''\<rparr>,
       isLoading = False, error = None, filters = ()\<rparr>"
      "''1''", unfolded Let_def]
  have n: "event_id \<lparr>event_id = ''2'', event_rest = ''other''\<rparr> \<noteq> ''1''"
    by simp
  from d n have c: "count_list (events (eventsReducer
      \<lparr>events = [\<lparr>event_id = ''1'', event_rest = ''old''\<rparr>, \<lparr>event_id = ''2'', event_rest = ''other''\<rparr>, \<lparr>event_id = ''1'', event_rest = ''old''\<rparr>],
       myEvents = [\<lparr>event_id = ''1'', event_rest = ''old''\<rparr>],
       currentEvent = Some \<lparr>event_id = ''1'', event_rest = ''old''\<rparr>,
       isLoading = False, error = None, filters = ()\<rparr>
      (DELETE_EVENT_SUCCESS ''1'')))
     \<lparr>event_id = ''2'', event_rest = ''other''\<rparr> =
    count_list (events
      \<lparr>events = [\<lparr>event_id = ''1'', event_rest = ''old''\<rparr>, \<lparr>event_id = ''2'', event_rest = ''other''\<rparr>, \<lparr>event_id = ''1'', event_rest = ''old''\<rparr>],
       myEvents = [\<lparr>event_id = ''1'', event_rest = ''old''\<rparr>],
       currentEvent = Some \<lparr>event_id = ''1'', event_rest = ''old''\<rparr>,
       isLoading = False, error = None, filters = ()\<rparr>)
     \<lparr>event_id = ''2'', event_rest = ''other''\<rparr>"
    by blast
  from d have e: "currentEvent (eventsReducer
      \<lparr>events = [\<lparr>event_id = ''1'', event_rest = ''old''\<rparr>, \<lparr>event_id = ''2'', event_rest = ''other''\<rparr>, \<lparr>event_id = ''1'', event_rest = ''old''\<rparr>],
       myEvents = [\<lparr>event_id = ''1'', event_rest = ''old''\<rparr>],
       currentEvent = Some \<lparr>event_id = ''1'', event_rest = ''old''\<rparr>,
       isLoading = False, error = None, filters = ()\<rparr>
      (DELETE_EVENT_SUCCESS ''1'')) = None"
    by simp
  from n c e show ?thesis by simp
qed

text \<open>
  C5: \<^verbatim>\<open>CREATE_EVENT_SUCCESS(e)\<close> makes \<^verbatim>\<open>events\<close> and \<^verbatim>\<open>myEvents\<close> longer by
  exactly one; \<open>e\<close> is the last entry of each, and the entries before it are the old
  list.
\<close>

theorem create_event_success_appends:
  "length (events (eventsReducer s (CREATE_EVENT_SUCCESS e))) = length (events s) + 1 \<and>
   last (events (eventsReducer s (CREATE_EVENT_SUCCESS e))) = e \<and>
   butlast (events (eventsReducer s (CREATE_EVENT_SUCCESS e))) = events s \<and>
   length (myEvents (eventsReducer s (CREATE_EVENT_SUCCESS e))) = length (myEvents s) + 1 \<and>
   last (myEvents (eventsReducer s (CREATE_EVENT_SUCCESS e))) = e \<and>
   butlast (myEvents (eventsReducer s (CREATE_EVENT_SUCCESS e))) = myEvents s"
  by simp

text \<open>
  C6: when \<^verbatim>\<open>createEvent(data)\<close> is called and the collaborator rejects with an error of
  message \<open>m\<close>, the state afterwards has the error \<open>m\<close> and the loading flag false,
  \<^verbatim>\<open>events\<close> is what it was before the call, and the call rejects with the
  collaborator's error. When the collaborator resolves with an event,
  \<^verbatim>\<open>CREATE_EVENT_SUCCESS\<close> is dispatched with it between the two \<^verbatim>\<open>SET_LOADING\<close>
  dispatches, and the call resolves with that event.
\<close>

theorem createEvent_failure_and_success:
  "(eventsAPI_createEvent api data = Inl err \<longrightarrow>
      error (store (fst (createEvent api data w))) = Some (message err) \<and>
      \<not> isLoading (store (fst (createEvent api data w))) \<and>
      events (store (fst (createEvent api data w))) = events (store w) \<and>
      snd (createEvent api data w) = Inl err) \<and>
   (eventsAPI_createEvent api data = Inr ev \<longrightarrow>
      store (fst (createEvent api data w)) =
        eventsReducer
          (eventsReducer (eventsReducer (store w) (SET_LOADING True))
             (CREATE_EVENT_SUCCESS ev))
          (SET_LOADING False) \<and>
      events (store (fst (createEvent api data w))) = events (store w) @ [ev] \<and>
      snd (createEvent api data w) = Inr ev)"
  by (simp add: createEvent_def dispatch_def Let_def split: sum.splits)

theorem createEvent_failure_and_success_witness:
  "eventsAPI_createEvent
      \<lparr>eventsAPI_getEvents = (\<lambda>_. Inr []),
       eventsAPI_getMyEvents = (\<lambda>_. Inr []),
       eventsAPI_getEvent = (\<lambda>_. Inr None),
       eventsAPI_createEvent = (\<lambda>_::string. Inl (Error ''quota exceeded'')),
       eventsAPI_updateEvent = (\<lambda>_ (_::unit). Inl (Error ''not found'')),
       eventsAPI_deleteEvent = (\<lambda>_. Inr ()),
       eventsAPI_joinEvent = (\<lambda>_. Inr ()),
       eventsAPI_leaveEvent = (\<lambda>_. Inr ())\<rparr> ''T'' = Inl (Error ''quota exceeded'') \<and>
   createEvent
      \<lparr>eventsAPI_getEvents = (\<lambda>_. Inr []),
       eventsAPI_getMyEvents = (\<lambda>_. Inr []),
       eventsAPI_getEvent = (\<lambda>_. Inr None),
       eventsAPI_createEvent = (\<lambda>_::string. Inl (Error ''quota exceeded'')),
       eventsAPI_updateEvent = (\<lambda>_ (_::unit). Inl (Error ''not found'')),
       eventsAPI_deleteEvent = (\<lambda>_. Inr ()),
       eventsAPI_joinEvent = (\<lambda>_. Inr ()),
       eventsAPI_leaveEvent = (\<lambda>_. Inr ())\<rparr> ''T''
     \<lparr>store = \<lparr>events = [\<lparr>event_id = ''1'', event_rest = ''old''\<rparr>, \<lparr>event_id = ''2'', event_rest = ''other''\<rparr>],
       myEvents = [\<lparr>event_id = ''1'', event_rest = ''old''\<rparr>],
       currentEvent = Some \<lparr>event_id = ''1'', event_rest = ''old''\<rparr>,
       isLoading = False, error = Some ''stale'', filters = ()\<rparr>,
      console = []\<rparr> =
     (\<lparr>store = \<lparr>events = [\<lparr>event_id = ''1'', event_rest = ''old''\<rparr>, \<lparr>event_id = ''2'', event_rest = ''other''\<rparr>],
       myEvents = [\<lparr>event_id = ''1'', event_rest = ''old''\<rparr>],
       currentEvent = Some \<lparr>event_id = ''1'', event_rest = ''old''\<rparr>,
       isLoading = False, error = Some ''quota exceeded'', filters = ()\<rparr>,
       console = []\<rparr>,
      Inl (Error ''quota exceeded'')) \<and>
   eventsAPI_createEvent
      \<lparr>eventsAPI_getEvents = (\<lambda>_. Inr []),
       eventsAPI_getMyEvents = (\<lambda>_. Inr []),
       eventsAPI_getEvent = (\<lambda>_. Inr None),
       eventsAPI_createEvent = (\<lambda>_::string. Inr \<lparr>event_id = ''9'', event_rest = ''T''\<rparr>),
       eventsAPI_updateEvent = (\<lambda>_ (_::unit). Inl (Error ''not found'')),
       eventsAPI_deleteEvent = (\<lambda>_. Inr ()),
       eventsAPI_joinEvent = (\<lambda>_. Inr ()),
       eventsAPI_leaveEvent = (\<lambda>_. Inr ())\<rparr> ''T'' = Inr \<lparr>event_id = ''9'', event_rest = ''T''\<rparr> \<and>
   snd (createEvent
      \<lparr>eventsAPI_getEvents = (\<lambda>_. Inr []),
       eventsAPI_getMyEvents = (\<lambda>_. Inr []),
       eventsAPI_getEvent = (\<lambda>_. Inr None),
       eventsAPI_createEvent = (\<lambda>_::string. Inr \<lparr>event_id = ''9'', event_rest = ''T''\<rparr>),
       eventsAPI_updateEvent = (\<lambda>_ (_::unit). Inl (Error ''not found'')),
       eventsAPI_deleteEvent = (\<lambda>_. Inr ()),
       eventsAPI_joinEvent = (\<lambda>_. Inr ()),
       eventsAPI_leaveEvent = (\<lambda>_. Inr ())\<rparr> ''T''
     \<lparr>store = \<lparr>events = [\<lparr>event_id = ''1'', event_rest = ''old''\<rparr>, \<lparr>event_id = ''2'', event_rest = ''other''\<rparr>],
       myEvents = [\<lparr>event_id = ''1'', event_rest = ''old''\<rparr>],
       currentEvent = Some \<lparr>event_id = ''1'', event_rest = ''old''\<rparr>,
       isLoading = False, error = Some ''stale'', filters = ()\<rparr>,
      console = []\<rparr>) = Inr \<lparr>event_id = ''9'', event_rest = ''T''\<rparr> \<and>
   events (store (fst (createEvent
      \<lparr>eventsAPI_getEvents = (\<lambda>_. Inr []),
       eventsAPI_getMyEvents = (\<lambda>_. Inr []),
       eventsAPI_getEvent = (\<lambda>_. Inr None),
       eventsAPI_createEvent = (\<lambda>_::string. Inr \<lparr>event_id = ''9'', event_rest = ''T''\<rparr>),
       eventsAPI_updateEvent = (\<lambda>_ (_::unit). Inl (Error ''not found'')),
       eventsAPI_deleteEvent = (\<lambda>_. Inr ()),
       eventsAPI_joinEvent = (\<lambda>_. Inr ()),
       eventsAPI_leaveEvent = (\<lambda>_. Inr ())\<rparr> ''T''
     \<lparr>store = \<lparr>events = [\<lparr>event_id = ''1'', event_rest = ''old''\<rparr>, \<lparr>event_id = ''2'', event_rest = ''other''\<rparr>],
       myEvents = [\<lparr>event_id = ''1'', event_rest = ''old''\<rparr>],
       currentEvent = Some \<lparr>event_id = ''1'', event_rest = ''old''\<rparr>,
       isLoading = False, error = Some ''stale'', filters = ()\<rparr>,
      console = []\<rparr>))) =
     [\<lparr>event_id = ''1'', event_rest = ''old''\<rparr>, \<lparr>event_id = ''2'', event_rest = ''other''\<rparr>, \<lparr>event_id = ''9'', event_rest = ''T''\<rparr>]"
  using
    createEvent_failure_and_success [of
      "\<lparr>eventsAPI_getEvents = (\<lambda>_. Inr []),
       eventsAPI_getMyEvents = (\<lambda>_. Inr []),
       eventsAPI_getEvent = (\<lambda>_. Inr None),
       eventsAPI_createEvent = (\<lambda>_::string. Inl (Error ''quota exceeded'')),
       eventsAPI_updateEvent = (\<lambda>_ (_::unit). Inl (Error ''not found'')),
       eventsAPI_deleteEvent = (\<lambda>_. Inr ()),
       eventsAPI_joinEvent = (\<lambda>_. Inr ()),
       eventsAPI_leaveEvent = (\<lambda>_. Inr ())\<rparr>" "''T''"
      "Error ''quota exceeded''"
      "\<lparr>store = \<lparr>events = [\<lparr>event_id = ''1'', event_rest = ''old''\<rparr>, \<lparr>event_id = ''2'', event_rest = ''other''\<rparr>],
       myEvents = [\<lparr>event_id = ''1'', event_rest = ''old''\<rparr>],
       currentEvent = Some \<lparr>event_id = ''1'', event_rest = ''old''\<rparr>,
       isLoading = False, error = Some ''stale'', filters = ()\<rparr>,
      console = []\<rparr>"
      "\<lparr>event_id = ''9'', event_rest = ''T''\<rparr>"]
    createEvent_failure_and_success [of
      "\<lparr>eventsAPI_getEvents = (\<lambda>_. Inr []),
       eventsAPI_getMyEvents = (\<lambda>_. Inr []),
       eventsAPI_getEvent = (\<lambda>_. Inr None),
       eventsAPI_createEvent = (\<lambda>_::string. Inr \<lparr>event_id = ''9'', event_rest = ''T''\<rparr>),
       eventsAPI_updateEvent = (\<lambda>_ (_::unit). Inl (Error ''not found'')),
       eventsAPI_deleteEvent = (\<lambda>_. Inr ()),
       eventsAPI_joinEvent = (\<lambda>_. Inr ()),
       eventsAPI_leaveEvent = (\<lambda>_. Inr ())\<rparr>" "''T''"
      "Error ''quota exceeded''"
      "\<lparr>store = \<lparr>events = [\<lparr>event_id = ''1'', event_rest = ''old''\<rparr>, \<lparr>event_id = ''2'', event_rest = ''other''\<rparr>],
       myEvents = [\<lparr>event_id = ''1'', event_rest = ''old''\<rparr>],
       currentEvent = Some \<lparr>event_id = ''1'', event_rest = ''old''\<rparr>,
       isLoading = False, error = Some ''stale'', filters = ()\<rparr>,
      console = []\<rparr>"
      "\<lparr>event_id = ''9'', event_rest = ''T''\<rparr>"]
  by (simp add: createEvent_def dispatch_def)

text \<open>
  C9: when \<^verbatim>\<open>fetchEvent(id)\<close> is called and the collaborator's \<^verbatim>\<open>getEvent(id)\<close>
  resolves with an absent result, \<^verbatim>\<open>currentEvent\<close> is absent afterwards, whatever it
  was before; the error is what it was before the call, and the loading flag is false.
\<close>

theorem fetchEvent_absent_result:
  "eventsAPI_getEvent api i = Inr None \<longrightarrow>
     currentEvent (store (fst (fetchEvent api i w))) = None \<and>
     error (store (fst (fetchEvent api i w))) = error (store w) \<and>
     \<not> isLoading (store (fst (fetchEvent api i w)))"
  by (simp add: fetchEvent_def dispatch_def Let_def)

theorem fetchEvent_absent_result_witness:
  "eventsAPI_getEvent
      \<lparr>eventsAPI_getEvents = (\<lambda>_. Inr []),
       eventsAPI_getMyEvents = (\<lambda>_. Inr []),
       eventsAPI_getEvent = (\<lambda>_. Inr None),
       eventsAPI_createEvent = (\<lambda>_::string. Inr \<lparr>event_id = ''9'', event_rest = ''T''\<rparr>),
       eventsAPI_updateEvent = (\<lambda>_ (_::unit). Inl (Error ''not found'')),
       eventsAPI_deleteEvent = (\<lambda>_. Inr ()),
       eventsAPI_joinEvent = (\<lambda>_. Inr ()),
       eventsAPI_leaveEvent = (\<lambda>_. Inr ())\<rparr> ''1'' = Inr None \<and>
   currentEvent (store
     \<lparr>store = \<lparr>events = [\<lparr>event_id = ''1'', event_rest = ''old''\<rparr>, \<lparr>event_id = ''2'', event_rest = ''other''\<rparr>],
       myEvents = [\<lparr>event_id = ''1'', event_rest = ''old''\<rparr>],
       currentEvent = Some \<lparr>event_id = ''1'', event_rest = ''old''\<rparr>,
       isLoading = False, error = Some ''stale'', filters = ()\<rparr>,
      console = []\<rparr>) = Some \<lparr>event_id = ''1'', event_rest = ''old''\<rparr> \<and>
   currentEvent (store (fst (fetchEvent
      \<lparr>eventsAPI_getEvents = (\<lambda>_. Inr []),
       eventsAPI_getMyEvents = (\<lambda>_. Inr []),
       eventsAPI_getEvent = (\<lambda>_. Inr None),
       eventsAPI_createEvent = (\<lambda>_::string. Inr \<lparr>event_id = ''9'', event_rest = ''T''\<rparr>),
       eventsAPI_updateEvent = (\<lambda>_ (_::unit). Inl (Error ''not found'')),
       eventsAPI_deleteEvent = (\<lambda>_. Inr ()),
       eventsAPI_joinEvent = (\<lambda>_. Inr ()),
       eventsAPI_leaveEvent = (\<lambda>_. Inr ())\<rparr> ''1''
     \<lparr>store = \<lparr>events = [\<lparr>event_id = ''1'', event_rest = ''old''\<rparr>, \<lparr>event_id = ''2'', event_rest = ''other''\<rparr>],
       myEvents = [\<lparr>event_id = ''1'', event_rest = ''old''\<rparr>],
       currentEvent = Some \<lparr>event_id = ''1'', event_rest = ''old''\<rparr>,
       isLoading = False, error = Some ''stale'', filters = ()\<rparr>,
      console = []\<rparr>))) = None \<and>
   error (store (fst (fetchEvent
      \<lparr>eventsAPI_getEvents = (\<lambda>_. Inr []),
       eventsAPI_getMyEvents = (\<lambda>_. Inr []),
       eventsAPI_getEvent = (\<lambda>_. Inr None),
       eventsAPI_createEvent = (\<lambda>_::string. Inr \<lparr>event_id = ''9'', event_rest = ''T''\<rparr>),
       eventsAPI_updateEvent = (\<lambda>_ (_::unit). Inl (Error ''not found'')),
       eventsAPI_deleteEvent = (\<lambda>_. Inr ()),
       eventsAPI_joinEvent = (\<lambda>_. Inr ()),
       eventsAPI_leaveEvent = (\<lambda>_. Inr ())\<rparr> ''1''
     \<lparr>store = \<lparr>events = [\<lparr>event_id = ''1'', event_rest = ''old''\<rparr>, \<lparr>event_id = ''2'', event_rest = ''other''\<rparr>],
       myEvents = [\<lparr>event_id = ''1'', event_rest = ''old''\<rparr>],
       currentEvent = Some \<lparr>event_id = ''1'', event_rest = ''old''\<rparr>,
       isLoading = False, error = Some ''stale'', filters = ()\<rparr>,
      console = []\<rparr>))) = Some ''stale'' \<and>
   \<not> isLoading (store (fst (fetchEvent
      \<lparr>eventsAPI_getEvents = (\<lambda>_. Inr []),
       eventsAPI_getMyEvents = (\<lambda>_. Inr []),
       eventsAPI_getEvent = (\<lambda>_. Inr None),
       eventsAPI_createEvent = (\<lambda>_::string. Inr \<lparr>event_id = ''9'', event_rest = ''T''\<rparr>),
       eventsAPI_updateEvent = (\<lambda>_ (_::unit). Inl (Error ''not found'')),
       eventsAPI_deleteEvent = (\<lambda>_. Inr ()),
       eventsAPI_joinEvent = (\<lambda>_. Inr ()),
       eventsAPI_leaveEvent = (\<lambda>_. Inr ())\<rparr> ''1''
     \<lparr>store = \<lparr>events = [\<lparr>event_id = ''1'', event_rest = ''old''\<rparr>, \<lparr>event_id = ''2'', event_rest = ''other''\<rparr>],
       myEvents = [\<lparr>event_id = ''1'', event_rest = ''old''\<rparr>],
       currentEvent = Some \<lparr>event_id = ''1'', event_rest = ''old''\<rparr>,
       isLoading = False, error = Some ''stale'', filters = ()\<rparr>,
      console = []\<rparr>)))"
  using fetchEvent_absent_result [of
      "\<lparr>eventsAPI_getEvents = (\<lambda>_. Inr []),
       eventsAPI_getMyEvents = (\<lambda>_. Inr []),
       eventsAPI_getEvent = (\<lambda>_. Inr None),
       eventsAPI_createEvent = (\<lambda>_::string. Inr \<lparr>event_id = ''9'', event_rest = ''T''\<rparr>),
       eventsAPI_updateEvent = (\<lambda>_ (_::unit). Inl (Error ''not found'')),
       eventsAPI_deleteEvent = (\<lambda>_. Inr ()),
       eventsAPI_joinEvent = (\<lambda>_. Inr ()),
       eventsAPI_leaveEvent = (\<lambda>_. Inr ())\<rparr>" "''1''"
      "\<lparr>store = \<lparr>events = [\<lparr>event_id = ''1'', event_rest = ''old''\<rparr>, \<lparr>event_id = ''2'', event_rest = ''other''\<rparr>],
       myEvents = [\<lparr>event_id = ''1'', event_rest = ''old''\<rparr>],
       currentEvent = Some \<lparr>event_id = ''1'', event_rest = ''old''\<rparr>,
       isLoading = False, error = Some ''stale'', filters = ()\<rparr>,
      console = []\<rparr>"]
  by simp

text \<open>
  C10: when \<^verbatim>\<open>joinEvent(eventId)\<close> or \<^verbatim>\<open>leaveEvent(eventId)\<close> succeeds, the mutation
  and the following \<^verbatim>\<open>getEvent\<close> both resolving, then \<^verbatim>\<open>events\<close>, \<^verbatim>\<open>myEvents\<close>,
  \<^verbatim>\<open>isLoading\<close>, \<^verbatim>\<open>error\<close> and \<^verbatim>\<open>filters\<close> are what they were. \<^verbatim>\<open>currentEvent\<close>
  is the refreshed event when that is present and is what it was when that is absent,
  so it changes only for a refreshed event that is present.
\<close>

theorem join_leave_success_frame:
  "(eventsAPI_joinEvent api i = Inr () \<and> eventsAPI_getEvent api i = Inr r \<longrightarrow>
      (let s' = store (fst (joinEvent api i w)) in
         events s' = events (store w) \<and> myEvents s' = myEvents (store w) \<and>
         isLoading s' = isLoading (store w) \<and> error s' = error (store w) \<and>
         filters s' = filters (store w) \<and>
         currentEvent s' = (case r of None \<Rightarrow> currentEvent (store w) | Some e \<Rightarrow> Some e) \<and>
         (currentEvent s' \<noteq> currentEvent (store w) \<longrightarrow> r \<noteq> None)) \<and>
      snd (joinEvent api i w) = Inr ()) \<and>
   (eventsAPI_leaveEvent api i = Inr () \<and> eventsAPI_getEvent api i = Inr r \<longrightarrow>
      (let s' = store (fst (leaveEvent api i w)) in
         events s' = events (store w) \<and> myEvents s' = myEvents (store w) \<and>
         isLoading s' = isLoading (store w) \<and> error s' = error (store w) \<and>
         filters s' = filters (store w) \<and>
         currentEvent s' = (case r of None \<Rightarrow> currentEvent (store w) | Some e \<Rightarrow> Some e) \<and>
         (currentEvent s' \<noteq> currentEvent (store w) \<longrightarrow> r \<noteq> None)) \<and>
      snd (leaveEvent api i w) = Inr ())"
  by (cases r) (simp_all add: joinEvent_def leaveEvent_def dispatch_def Let_def)

theorem join_leave_success_frame_witness:
  "eventsAPI_joinEvent
      \<lparr>eventsAPI_getEvents = (\<lambda>_. Inr []),
       eventsAPI_getMyEvents = (\<lambda>_. Inr []),
       eventsAPI_getEvent = (\<lambda>_. Inr (Some \<lparr>event_id = ''1'', event_rest = ''new''\<rparr>)),
       eventsAPI_createEvent = (\<lambda>_::string. Inr \<lparr>event_id = ''9'', event_rest = ''T''\<rparr>),
       eventsAPI_updateEvent = (\<lambda>_ (_::unit). Inl (Error ''not found'')),
       eventsAPI_deleteEvent = (\<lambda>_. Inr ()),
       eventsAPI_joinEvent = (\<lambda>_. Inr ()),
       eventsAPI_leaveEvent = (\<lambda>_. Inr ())\<rparr> ''1'' = Inr () \<and>
   eventsAPI_leaveEvent
      \<lparr>eventsAPI_getEvents = (\<lambda>_. Inr []),
       eventsAPI_getMyEvents = (\<lambda>_. Inr []),
       eventsAPI_getEvent = (\<lambda>_. Inr (Some \<lparr>event_id = ''1'', event_rest = ''new''\<rparr>)),
       eventsAPI_createEvent = (\<lambda>_::string. Inr \<lparr>event_id = ''9'', event_rest = ''T''\<rparr>),
       eventsAPI_updateEvent = (\<lambda>_ (_::unit). Inl (Error ''not found'')),
       eventsAPI_deleteEvent = (\<lambda>_. Inr ()),
       eventsAPI_joinEvent = (\<lambda>_. Inr ()),
       eventsAPI_leaveEvent = (\<lambda>_. Inr ())\<rparr> ''1'' = Inr () \<and>
   eventsAPI_getEvent
      \<lparr>eventsAPI_getEvents = (\<lambda>_. Inr []),
       eventsAPI_getMyEvents = (\<lambda>_. Inr []),
       eventsAPI_getEvent = (\<lambda>_. Inr (Some \<lparr>event_id = ''1'', event_rest = ''new''\<rparr>)),
       eventsAPI_createEvent = (\<lambda>_::string. Inr \<lparr>event_id = ''9'', event_rest = ''T''\<rparr>),
       eventsAPI_updateEvent = (\<lambda>_ (_::unit). Inl (Error ''not found'')),
       eventsAPI_deleteEvent = (\<lambda>_. Inr ()),
       eventsAPI_joinEvent = (\<lambda>_. Inr ()),
       eventsAPI_leaveEvent = (\<lambda>_. Inr ())\<rparr> ''1'' = Inr (Some \<lparr>event_id = ''1'', event_rest = ''new''\<rparr>) \<and>
   store (fst (joinEvent
      \<lparr>eventsAPI_getEvents = (\<lambda>_. Inr []),
       eventsAPI_getMyEvents = (\<lambda>_. Inr []),
       eventsAPI_getEvent = (\<lambda>_. Inr (Some \<lparr>event_id = ''1'', event_rest = ''new''\<rparr>)),
       eventsAPI_createEvent = (\<lambda>_::string. Inr \<lparr>event_id = ''9'', event_rest = ''T''\<rparr>),
       eventsAPI_updateEvent = (\<lambda>_ (_::unit). Inl (Error ''not found'')),
       eventsAPI_deleteEvent = (\<lambda>_. Inr ()),
       eventsAPI_joinEvent = (\<lambda>_. Inr ()),
       eventsAPI_leaveEvent = (\<lambda>_. Inr ())\<rparr> ''1''
     \<lparr>store = \<lparr>events = [\<lparr>event_id = ''1'', event_rest = ''old''\<rparr>, \<lparr>event_id = ''2'', event_rest = ''other''\<rparr>],
       myEvents = [\<lparr>event_id = ''1'', event_rest = ''old''\<rparr>],
       currentEvent = Some \<lparr>event_id = ''1'', event_rest = ''old''\<rparr>,
       isLoading = False, error = Some ''stale'', filters = ()\<rparr>,
      console = []\<rparr>)) =
     \<lparr>events = [\<lparr>event_id = ''1'', event_rest = ''old''\<rparr>, \<lparr>event_id = ''2'', event_rest = ''other''\<rparr>],
       myEvents = [\<lparr>event_id = ''1'', event_rest = ''old''\<rparr>],
       currentEvent = Some \<lparr>event_id = ''1'', event_rest = ''new''\<rparr>,
       isLoading = False, error = Some ''stale'', filters = ()\<rparr> \<and>
   store (fst (leaveEvent
      \<lparr>eventsAPI_getEvents = (\<lambda>_. Inr []),
       eventsAPI_getMyEvents = (\<lambda>_. Inr []),
       eventsAPI_getEvent = (\<lambda>_. Inr (Some \<lparr>event_id = ''1'', event_rest = ''new''\<rparr>)),
       eventsAPI_createEvent = (\<lambda>_::string. Inr \<lparr>event_id = ''9'', event_rest = ''T''\<rparr>),
       eventsAPI_updateEvent = (\<lambda>_ (_::unit). Inl (Error ''not found'')),
       eventsAPI_deleteEvent = (\<lambda>_. Inr ()),
       eventsAPI_joinEvent = (\<lambda>_. Inr ()),
       eventsAPI_leaveEvent = (\<lambda>_. Inr ())\<rparr> ''1''
     \<lparr>store = \<lparr>events = [\<lparr>event_id = ''1'', event_rest = ''old''\<rparr>, \<lparr>event_id = ''2'', event_rest = ''other''\<rparr>],
       myEvents = [\<lparr>event_id = ''1'', event_rest = ''old''\<rparr>],
       currentEvent = Some \<lparr>event_id = ''1'', event_rest = ''old''\<rparr>,
       isLoading = False, error = Some ''stale'', filters = ()\<rparr>,
      console = []\<rparr>)) =
     \<lparr>events = [\<lparr>event_id = ''1'', event_rest = ''old''\<rparr>, \<lparr>event_id = ''2'', event_rest = ''other''\<rparr>],
       myEvents = [\<lparr>event_id = ''1'', event_rest = ''old''\<rparr>],
       currentEvent = Some \<lparr>event_id = ''1'', event_rest = ''new''\<rparr>,
       isLoading = False, error = Some ''stale'', filters = ()\<rparr>"
  using join_leave_success_frame [of
      "\<lparr>eventsAPI_getEvents = (\<lambda>_. Inr []),
       eventsAPI_getMyEvents = (\<lambda>_. Inr []),
       eventsAPI_getEvent = (\<lambda>_. Inr (Some \<lparr>event_id = ''1'', event_rest = ''new''\<rparr>)),
       eventsAPI_createEvent = (\<lambda>_::string. Inr \<lparr>event_id = ''9'', event_rest = ''T''\<rparr>),
       eventsAPI_updateEvent = (\<lambda>_ (_::unit). Inl (Error ''not found'')),
       eventsAPI_deleteEvent = (\<lambda>_. Inr ()),
       eventsAPI_joinEvent = (\<lambda>_. Inr ()),
       eventsAPI_leaveEvent = (\<lambda>_. Inr ())\<rparr>" "''1''"
      "Some \<lparr>event_id = ''1'', event_rest = ''new''\<rparr>"
      "\<lparr>store = \<lparr>events = [\<lparr>event_id = ''1'', event_rest = ''old''\<rparr>, \<lparr>event_id = ''2'', event_rest = ''other''\<rparr>],
       myEvents = [\<lparr>event_id = ''1'', event_rest = ''old''\<rparr>],
       currentEvent = Some \<lparr>event_id = ''1'', event_rest = ''old''\<rparr>,
       isLoading = False, error = Some ''stale'', filters = ()\<rparr>,
      console = []\<rparr>"]
  by (simp add: joinEvent_def leaveEvent_def dispatch_def)

end
